theory Spec2Isabelle
  imports Main "HOL-Library.Multiset"
begin

section \<open>BioScout Islamabad: the helper functions of \<open>bioscout_app.py\<close>\<close>

text \<open>
  The application keeps its observations in one CSV file, reads a directory of text
  snippets, and answers a query by substring search over both. This theory embeds the
  helper functions of the script (\<open>load_observations\<close>, \<open>save_observation\<close>,
  \<open>get_kb_snippets\<close>, \<open>ai_species_id\<close>, \<open>simple_rag_query\<close>, \<open>get_top_observer\<close>) and
  the expression that builds the "AI Answer" of the second tab.

  Text. A Python \<open>str\<close> is a sequence of code points. Data text is modelled as
  \<^typ>\<open>string\<close>, each \<^typ>\<open>char\<close> read as one code point below 256 (Latin-1); text
  with other code points is outside the type. The synthesised answer contains the bullet
  U+2022, so output text is a list of code points as natural numbers.
\<close>

subsection \<open>Python text\<close>

text \<open>\<open>str.lower()\<close> on code points below 256: A to Z, and the upper-case letters
  U+00C0 to U+00DE except the multiplication sign U+00D7, move up by 32.\<close>

definition lower_char :: "char \<Rightarrow> char" where
  "lower_char c =
     (let n = (of_char c :: nat)
      in if (65 \<le> n \<and> n \<le> 90) \<or> (192 \<le> n \<and> n \<le> 222 \<and> n \<noteq> 215)
         then char_of (n + 32) else c)"

definition py_lower :: "string \<Rightarrow> string" where
  "py_lower s = map lower_char s"

text \<open>\<open>s.startswith(sub)\<close> and the substring test \<open>sub in s\<close>.\<close>

fun starts_with :: "string \<Rightarrow> string \<Rightarrow> bool" where
  "starts_with [] s = True"
| "starts_with (a # sub) [] = False"
| "starts_with (a # sub) (c # s) = (a = c \<and> starts_with sub s)"

fun py_in :: "string \<Rightarrow> string \<Rightarrow> bool" where
  "py_in sub [] = (sub = [])"
| "py_in sub (c # s) = (starts_with sub (c # s) \<or> py_in sub s)"

text \<open>\<open>s.split(sep)\<close> for a one-character separator: the pieces between the
  separators, never an empty list.\<close>

fun py_split :: "char \<Rightarrow> string \<Rightarrow> string list" where
  "py_split sep [] = [[]]"
| "py_split sep (c # s) =
     (if c = sep then [] # py_split sep s
      else (case py_split sep s of
              [] \<Rightarrow> [[c]]
            | piece # pieces \<Rightarrow> (c # piece) # pieces))"

type_synonym utext = "nat list"

definition u :: "string \<Rightarrow> utext" where
  "u s = map of_char s"

text \<open>\<open>sep.join(parts)\<close>.\<close>

fun py_join :: "utext \<Rightarrow> utext list \<Rightarrow> utext" where
  "py_join sep [] = []"
| "py_join sep [p] = p"
| "py_join sep (p # q # ps) = p @ sep @ py_join sep (q # ps)"

subsection \<open>The species identifier stub\<close>

record suggestion =
  species :: string
  confidence :: string

definition ai_species_id :: "'img \<Rightarrow> suggestion list" where
  "ai_species_id image_file =
     [\<lparr>species = ''Parus major (Great Tit)'', confidence = ''High''\<rparr>,
      \<lparr>species = ''Panthera pardus (Leopard)'', confidence = ''Medium''\<rparr>,
      \<lparr>species = ''Psittacula krameri (Rose-ringed Parakeet)'', confidence = ''Low''\<rparr>]"

subsection \<open>Observation tables\<close>

text \<open>
  The eight columns of the table. A row (a Python dict, a row of a DataFrame, a line of
  the CSV file) gives every column a value, so it is a function on \<open>column\<close>.
\<close>

datatype column =
  Observation_id | Species_name | Common_name | Date_observed
| Location | Image_url | Notes | Submitted_by

type_synonym 'a row = "column \<Rightarrow> 'a"

text \<open>
  A value in a DataFrame: a string, the missing value NaN, or a scalar of another type
  (integer, float, boolean). The type \<open>'v\<close> of those scalars and what pandas and Python
  do with them is not in the script; the functions below take it as arguments:
  \<open>str_of\<close> is \<open>str(v)\<close>, \<open>csv_text\<close> is the text \<open>to_csv\<close> writes for \<open>v\<close>, and
  \<open>typed\<close> is the type inference of \<open>read_csv\<close> for one column of field texts:
  \<open>Some conv\<close> when the column is converted to scalars (\<open>conv\<close> converts a field that is
  not a missing-value marker), \<open>None\<close> when the column stays text.
\<close>

datatype 'v cell = Str string | NaN | Typed 'v

type_synonym 'v frame = "'v cell row list"

text \<open>
  The store is the file \<open>data/observations.csv\<close>: absent, or present. A file that is
  present is given by the rows of field texts that \<open>to_csv\<close> was handed for it (the header
  line is fixed). What the parser of \<open>read_csv\<close> gets back from the characters that the
  csv writer put into the file is not in the script either: it is the argument \<open>codec\<close>,
  from the rows written to the rows parsed. Where the writer quotes every field that
  needs it, the two are the same; a writer that leaves a carriage return inside a field
  unquoted makes the parser end the line there, and the rows parsed are others.
\<close>

type_synonym csv_file = "string row list"

type_synonym store = "csv_file option"

text \<open>The field texts that \<open>read_csv\<close> reads as a missing value by default.\<close>

definition na_values :: "string list" where
  "na_values =
     ['''', ''#N/A'', ''#N/A N/A'', ''#NA'', ''-1.#IND'', ''-1.#QNAN'', ''-NaN'', ''-nan'',
      ''1.#IND'', ''1.#QNAN'', ''<NA>'', ''N/A'', ''NA'', ''NULL'', ''NaN'', ''None'',
      ''n/a'', ''nan'', ''null'']"

fun cell_text :: "('v \<Rightarrow> string) \<Rightarrow> 'v cell \<Rightarrow> string" where
  "cell_text csv_text (Str s) = s"
| "cell_text csv_text NaN = []"
| "cell_text csv_text (Typed v) = csv_text v"

definition to_csv :: "('v \<Rightarrow> string) \<Rightarrow> 'v frame \<Rightarrow> csv_file" where
  "to_csv csv_text df = map (\<lambda>row c. cell_text csv_text (row c)) df"

definition read_cell :: "(string list \<Rightarrow> (string \<Rightarrow> 'v) option) \<Rightarrow> string list \<Rightarrow> string \<Rightarrow> 'v cell" where
  "read_cell typed col t =
     (if t \<in> set na_values then NaN
      else (case typed col of Some conv \<Rightarrow> Typed (conv t) | None \<Rightarrow> Str t))"

definition read_csv ::
  "(string list \<Rightarrow> (string \<Rightarrow> 'v) option) \<Rightarrow> (csv_file \<Rightarrow> csv_file) \<Rightarrow> csv_file \<Rightarrow> 'v frame" where
  "read_csv typed codec file =
     (let parsed = codec file
      in map (\<lambda>line c. read_cell typed (map (\<lambda>l. l c) parsed) (line c)) parsed)"

text \<open>\<open>load_observations\<close>: create the header-only file when there is none, then read
  the file. The result is the store afterwards and the table.\<close>

definition load_observations ::
  "(string list \<Rightarrow> (string \<Rightarrow> 'v) option) \<Rightarrow> (csv_file \<Rightarrow> csv_file) \<Rightarrow> store
     \<Rightarrow> store \<times> 'v frame" where
  "load_observations typed codec fs =
     (let file = (case fs of None \<Rightarrow> to_csv (\<lambda>v. []) ([] :: 'v frame) | Some f \<Rightarrow> f)
      in (Some file, read_csv typed codec file))"

text \<open>\<open>save_observation\<close>: read the table, put the new row (a dict of strings) after
  its rows and write the whole table back.\<close>

definition save_observation ::
  "(string list \<Rightarrow> (string \<Rightarrow> 'v) option) \<Rightarrow> (csv_file \<Rightarrow> csv_file) \<Rightarrow> ('v \<Rightarrow> string)
     \<Rightarrow> string row \<Rightarrow> store \<Rightarrow> store" where
  "save_observation typed codec csv_text row fs =
     (let (fs', df) = load_observations typed codec fs;
          df = df @ [\<lambda>c. Str (row c)]
      in Some (to_csv csv_text df))"

subsection \<open>The knowledge base\<close>

text \<open>The directory \<open>data/kb_snippets\<close>: absent, or its entries by name in listing
  order. A file is given by its decoded text.\<close>

datatype dir_entry = File string | Directory

type_synonym kb_dir = "(string \<times> dir_entry) list option"

datatype py_error = ValueError | IsADirectoryError

text \<open>The names that the pattern \<open>*.txt\<close> matches: they end in \<open>.txt\<close> and do not start
  with a dot. \<open>glob.glob\<close> gives nothing for a directory that does not exist.\<close>

definition matches_txt :: "string \<Rightarrow> bool" where
  "matches_txt name =
     (case name of [] \<Rightarrow> False
      | c # _ \<Rightarrow> c \<noteq> CHR ''.'' \<and> starts_with (rev ''.txt'') (rev name))"

definition glob_txt :: "kb_dir \<Rightarrow> (string \<times> dir_entry) list" where
  "glob_txt kb =
     (case kb of None \<Rightarrow> [] | Some entries \<Rightarrow> filter (\<lambda>(name, e). matches_txt name) entries)"

fun read_snippets :: "(string \<times> dir_entry) list \<Rightarrow> string list \<Rightarrow> py_error + string list" where
  "read_snippets [] snippets = Inr snippets"
| "read_snippets ((fname, File content) # rest) snippets =
     read_snippets rest (snippets @ [content])"
| "read_snippets ((fname, Directory) # rest) snippets = Inl IsADirectoryError"

definition get_kb_snippets :: "kb_dir \<Rightarrow> py_error + string list" where
  "get_kb_snippets kb = read_snippets (glob_txt kb) []"

subsection \<open>Keyword search\<close>

fun py_str :: "('v \<Rightarrow> string) \<Rightarrow> 'v cell \<Rightarrow> string" where
  "py_str str_of (Str s) = s"
| "py_str str_of NaN = ''nan''"
| "py_str str_of (Typed v) = str_of v"

definition row_matches :: "('v \<Rightarrow> string) \<Rightarrow> string \<Rightarrow> 'v cell row \<Rightarrow> bool" where
  "row_matches str_of query_lower row =
     (py_in query_lower (py_lower (py_str str_of (row Species_name)))
      \<or> py_in query_lower (py_lower (py_str str_of (row Common_name)))
      \<or> py_in query_lower (py_lower (py_str str_of (row Notes)))
      \<or> py_in query_lower (py_lower (py_str str_of (row Location))))"

text \<open>The loop over \<open>obs_df.iterrows()\<close>, with the list \<open>obs_hits\<close> it appends to
  (\<open>str_of\<close> renders a scalar as the row presents it).\<close>

fun obs_loop :: "('v \<Rightarrow> string) \<Rightarrow> string \<Rightarrow> 'v frame \<Rightarrow> 'v frame \<Rightarrow> 'v frame" where
  "obs_loop str_of query_lower [] obs_hits = obs_hits"
| "obs_loop str_of query_lower (row # rest) obs_hits =
     obs_loop str_of query_lower rest
       (if row_matches str_of query_lower row then obs_hits @ [row] else obs_hits)"

definition simple_rag_query ::
  "('v \<Rightarrow> string) \<Rightarrow> string \<Rightarrow> 'v frame \<Rightarrow> string list \<Rightarrow> string list \<times> 'v frame" where
  "simple_rag_query str_of query obs_df kb_snippets =
     (let query_lower = py_lower query;
          kb_hits = filter (\<lambda>s. py_in query_lower (py_lower s)) kb_snippets;
          obs_hits = obs_loop str_of query_lower obs_df []
      in (kb_hits, obs_hits))"

subsection \<open>The top observer\<close>

text \<open>
  \<open>value_counts()\<close> counts each value of the column that is not NaN, the values in the
  order of their first appearance, and then sorts the counts in descending order. How
  the sort orders equal counts is left to pandas, so the sort is the argument
  \<open>sort_values\<close>. \<open>idxmax()\<close> gives the first label with the greatest count, and raises
  ValueError on an empty series.
\<close>

fun uniques :: "'a list \<Rightarrow> 'a list" where
  "uniques [] = []"
| "uniques (x # xs) = x # filter (\<lambda>y. y \<noteq> x) (uniques xs)"

definition value_counts ::
  "(('v cell \<times> nat) list \<Rightarrow> ('v cell \<times> nat) list) \<Rightarrow> 'v cell list \<Rightarrow> ('v cell \<times> nat) list" where
  "value_counts sort_values col =
     (let vals = filter (\<lambda>v. v \<noteq> NaN) col
      in sort_values (map (\<lambda>k. (k, count_list vals k)) (uniques vals)))"

fun idxmax_from :: "'k \<times> nat \<Rightarrow> ('k \<times> nat) list \<Rightarrow> 'k" where
  "idxmax_from (k, n) [] = k"
| "idxmax_from (k, n) ((k', n') # rest) =
     (if n < n' then idxmax_from (k', n') rest else idxmax_from (k, n) rest)"

fun idxmax :: "('k \<times> nat) list \<Rightarrow> py_error + 'k" where
  "idxmax [] = Inl ValueError"
| "idxmax (p # rest) = Inr (idxmax_from p rest)"

definition get_top_observer ::
  "(('v cell \<times> nat) list \<Rightarrow> ('v cell \<times> nat) list) \<Rightarrow> 'v frame \<Rightarrow> py_error + 'v cell" where
  "get_top_observer sort_values obs_df =
     (case obs_df of
        [] \<Rightarrow> Inr (Str ''N/A'')
      | _ # _ \<Rightarrow> idxmax (value_counts sort_values (map (\<lambda>row. row Submitted_by) obs_df)))"

subsection \<open>The synthesised answer\<close>

text \<open>The "AI Answer" of the second tab: \<open>st.success\<close> with a text built from the hits,
  or \<open>st.write\<close> with a fixed text when there are none.\<close>

datatype st_call = St_success utext | St_write utext

definition bullet :: utext where
  "bullet = [0x2022, 0x20]"

definition newline :: char where
  "newline = CHR 0x0A"

definition found_header :: string where
  "found_header =
     ''Based on available data, here'' @ [CHR 0x27] @ ''s what we found:'' @ [newline, newline]"

definition not_found_text :: string where
  "not_found_text =
     ''Sorry, I could not find relevant information. Try using different keywords or submit new observations!''"

definition kb_line :: "string \<Rightarrow> utext" where
  "kb_line hit = bullet @ u (hd (py_split newline hit))"

definition obs_line :: "('v \<Rightarrow> string) \<Rightarrow> 'v cell row \<Rightarrow> utext" where
  "obs_line str_of row =
     bullet @ u (py_str str_of (row Species_name)) @ u '' observed at ''
       @ u (py_str str_of (row Location)) @ u '' (''
       @ u (py_str str_of (row Date_observed)) @ u '')''"

definition ai_answer :: "('v \<Rightarrow> string) \<Rightarrow> string list \<Rightarrow> 'v frame \<Rightarrow> st_call" where
  "ai_answer str_of kb_hits obs_hits =
     (if kb_hits \<noteq> [] \<or> obs_hits \<noteq> [] then
        St_success
          (u found_header
           @ py_join (u [newline]) (map kb_line kb_hits)
           @ (if kb_hits \<noteq> [] then u [newline] else [])
           @ py_join (u [newline]) (map (obs_line str_of) obs_hits))
      else St_write (u not_found_text))"

subsection \<open>Sample data\<close>

text \<open>An instance in which every column stays text (there are no other scalars), and a
  sighting as the form submits it when no image is uploaded: \<open>image_url\<close> is the empty
  string.\<close>

definition text_columns :: "string list \<Rightarrow> (string \<Rightarrow> unit) option" where
  "text_columns col = None"

text \<open>The codec of a writer that quotes every field that needs it: the parser gets back
  the rows written.\<close>

definition quoting_codec :: "csv_file \<Rightarrow> csv_file" where
  "quoting_codec written = written"

definition no_scalar :: "unit \<Rightarrow> string" where
  "no_scalar v = []"

definition sighting :: "string row" where
  "sighting c =
     (case c of
        Observation_id \<Rightarrow> ''obs-0001''
      | Species_name \<Rightarrow> ''Parus major''
      | Common_name \<Rightarrow> ''Great Tit''
      | Date_observed \<Rightarrow> ''2025-05-17''
      | Location \<Rightarrow> ''Rawal Lake''
      | Image_url \<Rightarrow> []
      | Notes \<Rightarrow> ''Seen near the shore''
      | Submitted_by \<Rightarrow> ''Ali'')"

definition sighting_with_image :: "string row" where
  "sighting_with_image = sighting (Image_url := ''data/images/tit.jpg'')"

text \<open>The row that \<open>load_observations\<close> gives back for a sighting saved into an empty
  store, rows that differ in the observer, a snippet of two lines, and a descending sort
  of the counts.\<close>

definition seen :: "string row \<Rightarrow> unit cell row" where
  "seen row =
     last (snd (load_observations text_columns quoting_codec
                  (save_observation text_columns quoting_codec no_scalar row None)))"

definition sighting_without_notes :: "string row" where
  "sighting_without_notes = sighting (Notes := [])"

definition by_observer :: "string \<Rightarrow> unit cell row" where
  "by_observer name = seen (sighting (Submitted_by := name))"

definition great_tit_snippet :: string where
  "great_tit_snippet = ''Great Tit is common in Margalla Hills''"

definition two_line_snippet :: string where
  "two_line_snippet = ''Great Tit is common in Margalla Hills'' @ [newline] @ ''It nests in tree holes.''"

definition sort_desc :: "(unit cell \<times> nat) list \<Rightarrow> (unit cell \<times> nat) list" where
  "sort_desc counts = rev (sort_key snd counts)"

section \<open>Properties\<close>

subsection \<open>Text functions\<close>

text \<open>The substring test finds exactly the strings that occur somewhere in the text.\<close>

lemma starts_with_iff: "starts_with sub s \<longleftrightarrow> (\<exists>ss. s = sub @ ss)"
  by (induction sub s rule: starts_with.induct) auto

lemma py_in_iff: "py_in sub s \<longleftrightarrow> (\<exists>ps ss. s = ps @ sub @ ss)"
proof (induction s)
  case Nil
  then show ?case by auto
next
  case (Cons c s)
  show ?case
  proof
    assume "py_in sub (c # s)"
    then consider "starts_with sub (c # s)" | "py_in sub s" by auto
    then show "\<exists>ps ss. c # s = ps @ sub @ ss"
    proof cases
      case 1
      then obtain ss where "c # s = sub @ ss" by (auto simp: starts_with_iff)
      then have "c # s = [] @ sub @ ss" by simp
      then show ?thesis by blast
    next
      case 2
      then obtain ps ss where "s = ps @ sub @ ss" using Cons.IH by auto
      then have "c # s = (c # ps) @ sub @ ss" by simp
      then show ?thesis by blast
    qed
  next
    assume "\<exists>ps ss. c # s = ps @ sub @ ss"
    then obtain ps ss where eq: "c # s = ps @ sub @ ss" by blast
    show "py_in sub (c # s)"
    proof (cases ps)
      case Nil
      with eq have "starts_with sub (c # s)" by (auto simp: starts_with_iff)
      then show ?thesis by simp
    next
      case (Cons p ps')
      with eq have "s = ps' @ sub @ ss" by simp
      then have "py_in sub s" using Cons.IH by blast
      then show ?thesis by simp
    qed
  qed
qed

lemma py_in_empty: "py_in [] s"
  by (cases s) simp_all

text \<open>The first piece of a split is the text before the first separator.\<close>

lemma py_split_not_Nil: "py_split sep s \<noteq> []"
  by (induction s) (auto split: list.splits)

lemma hd_py_split: "hd (py_split sep s) = takeWhile (\<lambda>c. c \<noteq> sep) s"
  by (induction s) (auto split: list.splits simp: py_split_not_Nil)

text \<open>Joined parts followed by one more separator are the parts, each terminated.\<close>

lemma py_join_terminated:
  "py_join sep (map f xs) @ (if xs \<noteq> [] then sep else []) = concat (map (\<lambda>x. f x @ sep) xs)"
  by (induction xs rule: induct_list012) auto

subsection \<open>The observation store\<close>

lemma read_csv_length: "length (read_csv typed codec file) = length (codec file)"
  by (simp add: read_csv_def Let_def)

lemma read_csv_last:
  "codec file \<noteq> [] \<Longrightarrow>
   last (read_csv typed codec file) =
     (\<lambda>c. read_cell typed (map (\<lambda>l. l c) (codec file)) (last (codec file) c))"
  by (simp add: read_csv_def Let_def last_map)

lemma save_observation_file:
  "save_observation typed codec csv_text row fs =
     Some (to_csv csv_text (snd (load_observations typed codec fs)) @ [row])"
  by (simp add: save_observation_def to_csv_def split: prod.splits)

lemma seen_cell: "seen row c = (if row c \<in> set na_values then NaN else Str (row c))"
  by (simp add: seen_def save_observation_file load_observations_def Let_def read_csv_last
      to_csv_def read_cell_def text_columns_def quoting_codec_def)

lemma sighting_not_na: "sighting_with_image c \<notin> set na_values"
  by (cases c) (simp_all add: sighting_with_image_def sighting_def na_values_def)

text \<open>
  C1 (as amended). Let the writer and the parser give back the rows of field texts that
  \<open>save_observation\<close> wrote (a writer that leaves a carriage return inside a field
  unquoted does not). Then \<open>load_observations\<close> after \<open>save_observation\<close> of a record
  gives a table one row longer than before, and its last row is the record as
  \<open>read_csv\<close> reads it back: a field whose text is a missing-value marker, such as the
  empty string, is NaN; a field whose text is not a marker, in a column that stays text,
  is that string. When that holds of all eight fields, the last row equals the record
  field for field.
\<close>

theorem save_then_load_last:
  "\<exists>file. save_observation typed codec csv_text row fs = Some file
     \<and> load_observations typed codec (Some file) = (Some file, read_csv typed codec file)
     \<and> (codec file = file \<longrightarrow>
          length (read_csv typed codec file) = length (snd (load_observations typed codec fs)) + 1
          \<and> (\<forall>c. row c \<in> set na_values \<longrightarrow> last (read_csv typed codec file) c = NaN)
          \<and> (\<forall>c. row c \<notin> set na_values \<and> typed (map (\<lambda>l. l c) file) = None
                 \<longrightarrow> last (read_csv typed codec file) c = Str (row c))
          \<and> ((\<forall>c. row c \<notin> set na_values \<and> typed (map (\<lambda>l. l c) file) = None)
                 \<longrightarrow> last (read_csv typed codec file) = (\<lambda>c. Str (row c))))"
proof -
  define written where "written = to_csv csv_text (snd (load_observations typed codec fs)) @ [row]"
  have saved: "save_observation typed codec csv_text row fs = Some written"
    by (simp add: written_def save_observation_file)
  have loaded: "load_observations typed codec (Some written) = (Some written, read_csv typed codec written)"
    by (simp add: load_observations_def)
  have reread: "length (read_csv typed codec written) = length (snd (load_observations typed codec fs)) + 1
          \<and> (\<forall>c. row c \<in> set na_values \<longrightarrow> last (read_csv typed codec written) c = NaN)
          \<and> (\<forall>c. row c \<notin> set na_values \<and> typed (map (\<lambda>l. l c) written) = None
                 \<longrightarrow> last (read_csv typed codec written) c = Str (row c))
          \<and> ((\<forall>c. row c \<notin> set na_values \<and> typed (map (\<lambda>l. l c) written) = None)
                 \<longrightarrow> last (read_csv typed codec written) = (\<lambda>c. Str (row c)))"
    if same: "codec written = written"
  proof -
    have len: "length (read_csv typed codec written) = length (snd (load_observations typed codec fs)) + 1"
      by (simp add: read_csv_length same) (simp add: written_def to_csv_def)
    have "codec written \<noteq> []"
      by (simp add: same) (simp add: written_def)
    then have "last (read_csv typed codec written) c
        = read_cell typed (map (\<lambda>l. l c) (codec written)) (last (codec written) c)" for c
      by (simp add: read_csv_last)
    then have lst: "last (read_csv typed codec written) c
        = read_cell typed (map (\<lambda>l. l c) written) (row c)" for c
      by (simp add: same) (simp add: written_def)
    have na: "\<forall>c. row c \<in> set na_values \<longrightarrow> last (read_csv typed codec written) c = NaN"
      by (simp add: lst read_cell_def)
    have kept: "\<forall>c. row c \<notin> set na_values \<and> typed (map (\<lambda>l. l c) written) = None
              \<longrightarrow> last (read_csv typed codec written) c = Str (row c)"
      by (simp add: lst read_cell_def)
    have whole: "(\<forall>c. row c \<notin> set na_values \<and> typed (map (\<lambda>l. l c) written) = None)
              \<longrightarrow> last (read_csv typed codec written) = (\<lambda>c. Str (row c))"
      using kept by auto
    from len na kept whole show ?thesis by blast
  qed
  from saved loaded reread show ?thesis by blast
qed

text \<open>
  C1 as stated fails for the sighting without an image: its \<open>image_url\<close> is the empty
  string, written as an empty field and read back as NaN.
\<close>

theorem save_then_load_last_counterexample:
  "last (snd (load_observations text_columns quoting_codec
           (save_observation text_columns quoting_codec no_scalar sighting None))) Image_url = NaN
   \<and> sighting Image_url = []
   \<and> last (snd (load_observations text_columns quoting_codec
           (save_observation text_columns quoting_codec no_scalar sighting None)))
       \<noteq> (\<lambda>c. Str (sighting c))"
proof -
  have a: "last (snd (load_observations text_columns quoting_codec
           (save_observation text_columns quoting_codec no_scalar sighting None))) Image_url = NaN"
    by (simp add: save_observation_file load_observations_def Let_def read_csv_last to_csv_def
        read_cell_def sighting_def na_values_def quoting_codec_def)
  have b: "sighting Image_url = []" by (simp add: sighting_def)
  from a b have "last (snd (load_observations text_columns quoting_codec
           (save_observation text_columns quoting_codec no_scalar sighting None))) Image_url
       \<noteq> (\<lambda>c. Str (sighting c)) Image_url" by simp
  then have "last (snd (load_observations text_columns quoting_codec
           (save_observation text_columns quoting_codec no_scalar sighting None)))
       \<noteq> (\<lambda>c. Str (sighting c))" by metis
  with a b show ?thesis by simp
qed

text \<open>A second sighting, with an image path, is read back field for field: the writer
  quotes what needs it, none of the texts is a marker and every column of the file holds
  text that is not a number.\<close>

theorem save_then_load_last_witness:
  "last (snd (load_observations text_columns quoting_codec
      (save_observation text_columns quoting_codec no_scalar sighting_with_image
         (save_observation text_columns quoting_codec no_scalar sighting None))))
     = (\<lambda>c. Str (sighting_with_image c))
   \<and> length (snd (load_observations text_columns quoting_codec
      (save_observation text_columns quoting_codec no_scalar sighting_with_image
         (save_observation text_columns quoting_codec no_scalar sighting None)))) = 2"
proof -
  let ?before = "save_observation text_columns quoting_codec no_scalar sighting None"
  obtain written where
    s: "save_observation text_columns quoting_codec no_scalar sighting_with_image ?before
          = Some written"
    and l: "load_observations text_columns quoting_codec (Some written)
          = (Some written, read_csv text_columns quoting_codec written)"
    and w: "quoting_codec written = written \<longrightarrow>
          length (read_csv text_columns quoting_codec written)
            = length (snd (load_observations text_columns quoting_codec ?before)) + 1
          \<and> (\<forall>c. sighting_with_image c \<in> set na_values
                 \<longrightarrow> last (read_csv text_columns quoting_codec written) c = NaN)
          \<and> (\<forall>c. sighting_with_image c \<notin> set na_values
                   \<and> text_columns (map (\<lambda>l. l c) written) = None
                 \<longrightarrow> last (read_csv text_columns quoting_codec written) c
                       = Str (sighting_with_image c))
          \<and> ((\<forall>c. sighting_with_image c \<notin> set na_values
                   \<and> text_columns (map (\<lambda>l. l c) written) = None)
                 \<longrightarrow> last (read_csv text_columns quoting_codec written)
                       = (\<lambda>c. Str (sighting_with_image c)))"
    using save_then_load_last [of text_columns quoting_codec no_scalar sighting_with_image
        ?before] by blast
  have same: "quoting_codec written = written"
    by (simp add: quoting_codec_def)
  have all: "\<forall>c. sighting_with_image c \<notin> set na_values
      \<and> text_columns (map (\<lambda>l. l c) written) = None"
    by (simp add: sighting_not_na text_columns_def)
  from w same all have
    "last (read_csv text_columns quoting_codec written) = (\<lambda>c. Str (sighting_with_image c))"
    by blast
  moreover from w same have "length (read_csv text_columns quoting_codec written)
      = length (snd (load_observations text_columns quoting_codec ?before)) + 1"
    by blast
  moreover have "length (snd (load_observations text_columns quoting_codec ?before)) = 1"
    by (simp add: save_observation_file load_observations_def Let_def read_csv_length
        to_csv_def quoting_codec_def)
  ultimately show ?thesis using s l by simp
qed

text \<open>
  C6. Initialisation, the first step of \<open>load_observations\<close>, leaves a file that exists
  as it is, lines included; the header-only file with no lines is what it creates when
  there is no file. Running it again changes nothing and reads the same table.
\<close>

theorem load_observations_idempotent:
  "load_observations typed codec (Some file) = (Some file, read_csv typed codec file)
   \<and> fst (load_observations typed codec None) = Some []
   \<and> fst (load_observations typed codec fs) = Some (case fs of None \<Rightarrow> [] | Some f \<Rightarrow> f)
   \<and> load_observations typed codec (fst (load_observations typed codec fs)) = load_observations typed codec fs"
  by (simp add: load_observations_def to_csv_def split: option.splits)

subsection \<open>The knowledge base\<close>

text \<open>
  C9. When the directory of snippets does not exist, \<open>get_kb_snippets\<close> returns the empty
  list and raises nothing.
\<close>

theorem get_kb_snippets_missing_dir: "get_kb_snippets None = Inr []"
  by (simp add: get_kb_snippets_def glob_txt_def)

subsection \<open>The species identifier stub\<close>

text \<open>
  C7. Whatever \<open>ai_species_id\<close> is given, an uploaded image or \<open>None\<close>, it returns the
  same three suggestions in the same order: Great Tit with confidence High, Leopard with
  Medium, Rose-ringed Parakeet with Low. The argument is not used.
\<close>

theorem ai_species_id_fixed:
  "map (\<lambda>sug. (species sug, confidence sug)) (ai_species_id image_file) =
     [(''Parus major (Great Tit)'', ''High''),
      (''Panthera pardus (Leopard)'', ''Medium''),
      (''Psittacula krameri (Rose-ringed Parakeet)'', ''Low'')]
   \<and> ai_species_id image_file = ai_species_id (None :: 'img option)
   \<and> length (ai_species_id image_file) = 3"
  by (simp add: ai_species_id_def)

subsection \<open>Keyword search\<close>

lemma obs_loop_filter:
  "obs_loop str_of q df acc = acc @ filter (row_matches str_of q) df"
  by (induction df arbitrary: acc) auto

lemma row_matches_iff:
  "row_matches str_of q row \<longleftrightarrow>
     (\<exists>f \<in> {Species_name, Common_name, Notes, Location}.
        \<exists>ps ss. py_lower (py_str str_of (row f)) = ps @ q @ ss)"
  unfolding row_matches_def py_in_iff by blast

lemma filter_row_matches:
  "filter (row_matches str_of q) df =
     filter (\<lambda>row. \<exists>f \<in> {Species_name, Common_name, Notes, Location}.
                \<exists>ps ss. py_lower (py_str str_of (row f)) = ps @ q @ ss) df"
  by (rule filter_cong [OF refl]) (rule row_matches_iff)

lemma row_matches_empty: "row_matches str_of [] row"
  by (simp add: row_matches_def py_in_empty)

text \<open>
  C2 (as amended). For the empty query, \<open>simple_rag_query\<close> returns every snippet and every
  observation, in their order: the empty string occurs in every text.
\<close>

theorem simple_rag_query_empty_query:
  "simple_rag_query str_of [] obs_df kb_snippets = (kb_snippets, obs_df)"
  by (simp add: simple_rag_query_def py_lower_def py_in_empty obs_loop_filter row_matches_empty)

text \<open>
  C2 as stated fails: with one snippet and one observation, the empty query returns
  both, not two empty lists.
\<close>

theorem simple_rag_query_empty_query_counterexample:
  "simple_rag_query no_scalar [] [seen sighting] [great_tit_snippet]
     = ([great_tit_snippet], [seen sighting])
   \<and> simple_rag_query no_scalar [] [seen sighting] [great_tit_snippet] \<noteq> ([], [])"
  by (simp add: simple_rag_query_def py_lower_def py_in_empty obs_loop_filter row_matches_empty)

text \<open>
  C3 as stated fails for a row with a blank searched field: the sighting saved with
  empty notes is a hit for the query "nan", though "nan" occurs in none of its four
  field texts. Its notes are read back as the missing value, and \<open>str\<close> of that is "nan".
\<close>

theorem simple_rag_query_obs_hits_counterexample:
  "seen sighting_without_notes
     \<in> set (snd (simple_rag_query no_scalar ''nan'' [seen sighting_without_notes] []))
   \<and> seen sighting_without_notes Species_name = Str ''Parus major''
   \<and> seen sighting_without_notes Common_name = Str ''Great Tit''
   \<and> seen sighting_without_notes Notes = NaN
   \<and> seen sighting_without_notes Location = Str ''Rawal Lake''
   \<and> \<not> py_in (py_lower ''nan'') (py_lower ''Parus major'')
   \<and> \<not> py_in (py_lower ''nan'') (py_lower ''Great Tit'')
   \<and> \<not> py_in (py_lower ''nan'') (py_lower (sighting_without_notes Notes))
   \<and> \<not> py_in (py_lower ''nan'') (py_lower ''Rawal Lake'')"
  by (simp add: simple_rag_query_def Let_def row_matches_def seen_cell
      sighting_without_notes_def sighting_def na_values_def
      py_lower_def lower_char_def char_of_def bit_Suc_0_iff)

text \<open>
  C3 (as amended). The observation hits are the rows of the table, in table order, for
  which the lower-cased query occurs in the lower-cased \<open>str\<close> of the value of
  \<open>species_name\<close>, \<open>common_name\<close>, \<open>notes\<close> or \<open>location\<close>: the field's text when the value
  is a string, "nan" when it is missing. A row of the table whose location is
  "Rawal Lake" is a hit for the query "rawal".
\<close>

theorem simple_rag_query_obs_hits:
  "snd (simple_rag_query str_of query obs_df kb_snippets) =
     filter (\<lambda>row. \<exists>f \<in> {Species_name, Common_name, Notes, Location}.
                \<exists>ps ss. py_lower (py_str str_of (row f)) = ps @ py_lower query @ ss) obs_df
   \<and> (row \<in> set obs_df \<and> row Location = Str ''Rawal Lake''
        \<longrightarrow> row \<in> set (snd (simple_rag_query str_of ''rawal'' obs_df kb_snippets)))"
proof -
  have hits: "snd (simple_rag_query str_of q obs_df kb_snippets) =
     filter (\<lambda>row. \<exists>f \<in> {Species_name, Common_name, Notes, Location}.
                \<exists>ps ss. py_lower (py_str str_of (row f)) = ps @ py_lower q @ ss) obs_df" for q
    by (simp only: simple_rag_query_def Let_def snd_conv obs_loop_filter append_Nil
        filter_row_matches)
  have lake: "py_lower ''Rawal Lake'' = [] @ py_lower ''rawal'' @ '' lake''"
    by (simp add: py_lower_def lower_char_def char_of_def bit_Suc_0_iff)
  have "row \<in> set (snd (simple_rag_query str_of ''rawal'' obs_df kb_snippets))"
    if "row \<in> set obs_df" and "row Location = Str ''Rawal Lake''"
  proof -
    have "\<exists>ps ss. py_lower (py_str str_of (row Location)) = ps @ py_lower ''rawal'' @ ss"
      using that(2) lake by (metis py_str.simps(1))
    with that(1) show ?thesis unfolding hits by simp
  qed
  with hits show ?thesis by blast
qed

theorem simple_rag_query_obs_hits_witness:
  "snd (simple_rag_query no_scalar ''rawal'' [seen sighting] []) = [seen sighting]
   \<and> seen sighting Location = Str ''Rawal Lake''"
proof -
  have loc: "seen sighting Location = Str ''Rawal Lake''"
    by (simp add: seen_cell sighting_def na_values_def)
  have "seen sighting \<in> set [seen sighting] \<and> seen sighting Location = Str ''Rawal Lake''
        \<longrightarrow> seen sighting \<in> set (snd (simple_rag_query no_scalar ''rawal'' [seen sighting] []))"
    using simple_rag_query_obs_hits [of no_scalar "''rawal''" "[seen sighting]" "[]" "seen sighting"]
    by (rule conjunct2)
  with loc have "seen sighting \<in> set (snd (simple_rag_query no_scalar ''rawal'' [seen sighting] []))"
    by simp
  then have "snd (simple_rag_query no_scalar ''rawal'' [seen sighting] []) = [seen sighting]"
    by (simp add: simple_rag_query_def Let_def obs_loop_filter split: if_splits)
  with loc show ?thesis by simp
qed

text \<open>
  C4. The knowledge-base hits are the snippets, in their order, whose lower-cased content
  contains the lower-cased query. The snippet "Great Tit is common in Margalla Hills" is
  a hit for the query "great tit" whenever it is among the snippets.
\<close>

theorem simple_rag_query_kb_hits:
  "fst (simple_rag_query str_of query obs_df kb_snippets) =
     filter (\<lambda>s. \<exists>ps ss. py_lower s = ps @ py_lower query @ ss) kb_snippets
   \<and> (''Great Tit is common in Margalla Hills'' \<in> set kb_snippets
        \<longrightarrow> ''Great Tit is common in Margalla Hills''
              \<in> set (fst (simple_rag_query str_of ''great tit'' obs_df kb_snippets)))"
proof -
  have hits: "fst (simple_rag_query str_of q obs_df kb_snippets) =
     filter (\<lambda>s. \<exists>ps ss. py_lower s = ps @ py_lower q @ ss) kb_snippets" for q
    by (simp add: simple_rag_query_def Let_def py_in_iff)
  have "py_lower ''Great Tit is common in Margalla Hills''
          = [] @ py_lower ''great tit'' @ '' is common in margalla hills''"
    by (simp add: py_lower_def lower_char_def char_of_def bit_Suc_0_iff)
  then have "\<exists>ps ss. py_lower ''Great Tit is common in Margalla Hills'' = ps @ py_lower ''great tit'' @ ss"
    by blast
  then show ?thesis unfolding hits by simp
qed

theorem simple_rag_query_kb_hits_witness:
  "fst (simple_rag_query no_scalar ''great tit'' []
          [''Leopards live in the hills'', ''Great Tit is common in Margalla Hills''])
     = [''Great Tit is common in Margalla Hills'']"
proof -
  have "''Great Tit is common in Margalla Hills''
          \<in> set [''Leopards live in the hills'', ''Great Tit is common in Margalla Hills'']
        \<longrightarrow> ''Great Tit is common in Margalla Hills''
          \<in> set (fst (simple_rag_query no_scalar ''great tit'' []
                [''Leopards live in the hills'', ''Great Tit is common in Margalla Hills'']))"
    using simple_rag_query_kb_hits [of no_scalar "''great tit''" "[]"
        "[''Leopards live in the hills'', ''Great Tit is common in Margalla Hills'']"]
    by (rule conjunct2)
  then have "''Great Tit is common in Margalla Hills''
          \<in> set (fst (simple_rag_query no_scalar ''great tit'' []
                [''Leopards live in the hills'', ''Great Tit is common in Margalla Hills'']))"
    by simp
  moreover have "\<not> py_in (py_lower ''great tit'') (py_lower ''Leopards live in the hills'')"
    by (simp add: py_lower_def lower_char_def char_of_def bit_Suc_0_iff)
  ultimately show ?thesis
    by (simp add: simple_rag_query_def Let_def split: if_splits)
qed

text \<open>
  C10 (as amended). \<open>str\<close> of a missing value is "nan", and an empty field is read as a
  missing value; so a row of the table in which \<open>species_name\<close>, \<open>common_name\<close>, \<open>notes\<close>
  or \<open>location\<close> is missing is a hit for the query "nan".
\<close>

theorem simple_rag_query_nan:
  "py_str str_of NaN = ''nan''
   \<and> read_cell typed col [] = NaN
   \<and> (row \<in> set obs_df
        \<and> (row Species_name = NaN \<or> row Common_name = NaN \<or> row Notes = NaN \<or> row Location = NaN)
        \<longrightarrow> row \<in> set (snd (simple_rag_query str_of ''nan'' obs_df kb_snippets)))"
proof -
  have low: "py_lower ''nan'' = ''nan''"
    by (simp add: py_lower_def lower_char_def)
  have "row_matches str_of ''nan'' row"
    if "row Species_name = NaN \<or> row Common_name = NaN \<or> row Notes = NaN \<or> row Location = NaN"
    using that by (auto simp: row_matches_def low)
  then have "row \<in> set obs_df
        \<and> (row Species_name = NaN \<or> row Common_name = NaN \<or> row Notes = NaN \<or> row Location = NaN)
        \<longrightarrow> row \<in> set (snd (simple_rag_query str_of ''nan'' obs_df kb_snippets))"
    by (simp add: simple_rag_query_def Let_def obs_loop_filter low)
  moreover have "read_cell typed col [] = NaN"
    by (simp add: read_cell_def na_values_def)
  ultimately show ?thesis by simp
qed

text \<open>
  C10 as stated fails for a missing field that is not searched: the sighting without an
  image has its \<open>image_url\<close> missing and is not a hit for "nan".
\<close>

theorem simple_rag_query_nan_counterexample:
  "sighting Image_url = []
   \<and> seen sighting Image_url = NaN
   \<and> snd (simple_rag_query no_scalar ''nan'' [seen sighting] []) = []"
  by (simp add: simple_rag_query_def Let_def row_matches_def seen_cell sighting_def na_values_def
      py_lower_def lower_char_def char_of_def bit_Suc_0_iff)

theorem simple_rag_query_nan_witness:
  "seen sighting_without_notes Notes = NaN
   \<and> snd (simple_rag_query no_scalar ''nan'' [seen sighting_without_notes] [])
       = [seen sighting_without_notes]"
proof -
  have n: "seen sighting_without_notes Notes = NaN"
    by (simp add: seen_cell sighting_without_notes_def na_values_def)
  have "seen sighting_without_notes \<in> set [seen sighting_without_notes]
        \<and> (seen sighting_without_notes Species_name = NaN
           \<or> seen sighting_without_notes Common_name = NaN
           \<or> seen sighting_without_notes Notes = NaN
           \<or> seen sighting_without_notes Location = NaN)
        \<longrightarrow> seen sighting_without_notes
              \<in> set (snd (simple_rag_query no_scalar ''nan'' [seen sighting_without_notes] []))"
    using simple_rag_query_nan [of no_scalar text_columns "[]" "seen sighting_without_notes"
        "[seen sighting_without_notes]" "[]"]
    by (elim conjE)
  with n have "seen sighting_without_notes
              \<in> set (snd (simple_rag_query no_scalar ''nan'' [seen sighting_without_notes] []))"
    by simp
  then have "snd (simple_rag_query no_scalar ''nan'' [seen sighting_without_notes] [])
       = [seen sighting_without_notes]"
    by (simp add: simple_rag_query_def Let_def obs_loop_filter split: if_splits)
  with n show ?thesis by simp
qed

subsection \<open>The top observer\<close>

text \<open>\<open>idxmax\<close> returns a label whose count no other count exceeds.\<close>

lemma idxmax_from_greatest:
  "\<exists>m. (idxmax_from (k, n) rest, m) \<in> set ((k, n) # rest) \<and> (\<forall>(k', n') \<in> set ((k, n) # rest). n' \<le> m)"
proof (induction rest arbitrary: k n)
  case Nil
  then show ?case by simp
next
  case (Cons p rest)
  obtain k' n' where p: "p = (k', n')" by (cases p)
  show ?case
  proof (cases "n < n'")
    case True
    from Cons.IH [of k' n'] obtain m
      where "(idxmax_from (k', n') rest, m) \<in> set ((k', n') # rest)"
        and "\<forall>(a, b) \<in> set ((k', n') # rest). b \<le> m" by blast
    with True p show ?thesis by (intro exI [of _ m]) auto
  next
    case False
    from Cons.IH [of k n] obtain m
      where "(idxmax_from (k, n) rest, m) \<in> set ((k, n) # rest)"
        and "\<forall>(a, b) \<in> set ((k, n) # rest). b \<le> m" by blast
    with False p show ?thesis by (intro exI [of _ m]) auto
  qed
qed

lemma idxmax_greatest:
  assumes "idxmax counts = Inr k"
  shows "\<exists>m. (k, m) \<in> set counts \<and> (\<forall>(k', n') \<in> set counts. n' \<le> m)"
proof (cases counts)
  case Nil
  with assms show ?thesis by simp
next
  case (Cons p rest)
  obtain k0 n0 where p: "p = (k0, n0)" by (cases p)
  from assms Cons p have "k = idxmax_from (k0, n0) rest" by simp
  with idxmax_from_greatest [of k0 n0 rest] Cons p show ?thesis by simp
qed

lemma idxmax_defined: "counts \<noteq> [] \<Longrightarrow> \<exists>k. idxmax counts = Inr k"
  by (cases counts) simp_all

lemma idxmax_of_two:
  assumes "set counts = {(a, 2), (b, 1)}"
  shows "idxmax counts = Inr a"
proof -
  from assms have "counts \<noteq> []" by auto
  then obtain k where k: "idxmax counts = Inr k"
    using idxmax_defined by blast
  from idxmax_greatest [OF k] obtain m
    where m: "(k, m) \<in> set counts" and top: "\<forall>(k', n') \<in> set counts. n' \<le> m" by blast
  from top assms have "2 \<le> m" by auto
  with m assms have "k = a" by auto
  with k show ?thesis by simp
qed

lemma counts_ali: "value_counts sort_values [Str ''Ali'', Str ''Ali'', Str ''Sara'']
   = sort_values [(Str ''Ali'', 2), (Str ''Sara'', 1)]"
  by (simp add: value_counts_def numeral_2_eq_2)

text \<open>
  C8. For a table whose \<open>submitted_by\<close> column is Ali, Ali, Sara the top observer is
  "Ali", however the sort of \<open>value_counts\<close> permutes the counts; for the empty table it
  is "N/A".
\<close>

theorem get_top_observer_example:
  assumes "\<forall>counts. mset (sort_values counts) = mset counts"
    and "map (\<lambda>row. row Submitted_by) obs_df = [Str ''Ali'', Str ''Ali'', Str ''Sara'']"
  shows "get_top_observer sort_values obs_df = Inr (Str ''Ali'')
         \<and> get_top_observer sort_values [] = Inr (Str ''N/A'')"
proof -
  let ?sorted = "sort_values [(Str ''Ali'', 2), (Str ''Sara'', 1)]"
  from assms(1) have "mset ?sorted = mset [(Str ''Ali'', 2), (Str ''Sara'', 1)]"
    by (rule spec)
  then have "set ?sorted = set [(Str ''Ali'', 2), (Str ''Sara'', 1)]"
    by (rule mset_eq_setD)
  then have "set ?sorted = {(Str ''Ali'', 2), (Str ''Sara'', 1)}"
    by (simp only: list.simps(15) empty_set)
  then have top: "idxmax ?sorted = Inr (Str ''Ali'')"
    by (rule idxmax_of_two)
  from assms(2) obtain row rest where "obs_df = row # rest"
    by (cases obs_df) simp_all
  then have "get_top_observer sort_values obs_df =
      idxmax (value_counts sort_values (map (\<lambda>row. row Submitted_by) obs_df))"
    by (simp add: get_top_observer_def)
  also have "\<dots> = idxmax ?sorted"
    by (simp only: assms(2) counts_ali)
  finally have "get_top_observer sort_values obs_df = Inr (Str ''Ali'')"
    using top by simp
  moreover have "get_top_observer sort_values [] = Inr (Str ''N/A'')"
    by (simp add: get_top_observer_def)
  ultimately show ?thesis by simp
qed

theorem get_top_observer_example_witness:
  "get_top_observer sort_desc [by_observer ''Ali'', by_observer ''Ali'', by_observer ''Sara'']
     = Inr (Str ''Ali'')
   \<and> map (\<lambda>row. row Submitted_by) [by_observer ''Ali'', by_observer ''Ali'', by_observer ''Sara'']
     = [Str ''Ali'', Str ''Ali'', Str ''Sara'']
   \<and> get_top_observer sort_desc [] = Inr (Str ''N/A'')"
proof -
  have perm: "\<forall>counts. mset (sort_desc counts) = mset counts"
    by (simp add: sort_desc_def)
  have col: "map (\<lambda>row. row Submitted_by)
               [by_observer ''Ali'', by_observer ''Ali'', by_observer ''Sara'']
             = [Str ''Ali'', Str ''Ali'', Str ''Sara'']"
    by (simp add: by_observer_def seen_cell na_values_def)
  from get_top_observer_example [OF perm col] col show ?thesis by simp
qed

subsection \<open>The synthesised answer\<close>

lemma kb_line_first_line: "kb_line hit = bullet @ u (takeWhile (\<lambda>c. c \<noteq> newline) hit)"
  by (simp add: kb_line_def hd_py_split)

lemma kb_line_no_newline: "of_char newline \<notin> set (kb_line hit)"
proof -
  have "of_char newline \<notin> set (u (takeWhile (\<lambda>c. c \<noteq> newline) hit))"
    by (auto simp: u_def dest: set_takeWhileD)
  moreover have "of_char newline \<notin> set bullet"
    by (simp add: bullet_def newline_def)
  ultimately show ?thesis by (simp add: kb_line_first_line)
qed

text \<open>
  C5. The fixed text is the answer exactly when there is no hit of either kind.
  Otherwise the answer is the heading, then for each knowledge-base hit a bullet, its
  first line (the text before its first newline) and a newline, then the observation
  hits joined by newlines, each a bullet and
  "species_name observed at location (date_observed)". A knowledge-base line holds no
  newline. The answer is a function of the two hit lists alone.
\<close>

theorem ai_answer_synthesis:
  "ai_answer str_of [] [] = St_write (u not_found_text)
   \<and> (ai_answer str_of kb_hits obs_hits = St_write (u not_found_text)
        \<longleftrightarrow> kb_hits = [] \<and> obs_hits = [])
   \<and> (kb_hits \<noteq> [] \<or> obs_hits \<noteq> [] \<longrightarrow>
        ai_answer str_of kb_hits obs_hits =
          St_success
            (u found_header
             @ concat (map (\<lambda>hit. bullet @ u (takeWhile (\<lambda>c. c \<noteq> newline) hit) @ u [newline])
                         kb_hits)
             @ py_join (u [newline])
                 (map (\<lambda>row. bullet @ u (py_str str_of (row Species_name)) @ u '' observed at ''
                              @ u (py_str str_of (row Location)) @ u '' (''
                              @ u (py_str str_of (row Date_observed)) @ u '')'')
                    obs_hits)))
   \<and> (\<forall>hit \<in> set kb_hits. of_char newline \<notin> set (kb_line hit))"
proof -
  have kb: "py_join (u [newline]) (map kb_line kb_hits) @ (if kb_hits \<noteq> [] then u [newline] else [])
      = concat (map (\<lambda>hit. bullet @ u (takeWhile (\<lambda>c. c \<noteq> newline) hit) @ u [newline]) kb_hits)"
    by (simp add: py_join_terminated kb_line_first_line)
  have obs: "map (obs_line str_of) obs_hits =
      map (\<lambda>row. bullet @ u (py_str str_of (row Species_name)) @ u '' observed at ''
                              @ u (py_str str_of (row Location)) @ u '' (''
                              @ u (py_str str_of (row Date_observed)) @ u '')'') obs_hits"
    by (simp add: obs_line_def)
  have found: "kb_hits \<noteq> [] \<or> obs_hits \<noteq> [] \<longrightarrow>
        ai_answer str_of kb_hits obs_hits =
          St_success
            (u found_header
             @ concat (map (\<lambda>hit. bullet @ u (takeWhile (\<lambda>c. c \<noteq> newline) hit) @ u [newline])
                         kb_hits)
             @ py_join (u [newline])
                 (map (\<lambda>row. bullet @ u (py_str str_of (row Species_name)) @ u '' observed at ''
                              @ u (py_str str_of (row Location)) @ u '' (''
                              @ u (py_str str_of (row Date_observed)) @ u '')'')
                    obs_hits))"
    unfolding kb [symmetric] obs [symmetric] by (simp add: ai_answer_def)
  have none: "ai_answer str_of [] [] = St_write (u not_found_text)"
    by (simp add: ai_answer_def)
  have iff: "ai_answer str_of kb_hits obs_hits = St_write (u not_found_text)
        \<longleftrightarrow> kb_hits = [] \<and> obs_hits = []"
    by (simp add: ai_answer_def)
  from none iff found kb_line_no_newline show ?thesis by blast
qed

theorem ai_answer_synthesis_witness:
  "ai_answer no_scalar [two_line_snippet] [seen sighting] =
     St_success
       (u found_header
        @ bullet @ u ''Great Tit is common in Margalla Hills'' @ u [newline]
        @ bullet @ u ''Parus major observed at Rawal Lake (2025-05-17)'')
   \<and> ai_answer no_scalar [] ([] :: unit frame) = St_write (u not_found_text)"
proof -
  have "[two_line_snippet] \<noteq> [] \<or> [seen sighting] \<noteq> [] \<longrightarrow>
        ai_answer no_scalar [two_line_snippet] [seen sighting] =
          St_success
            (u found_header
             @ concat (map (\<lambda>hit. bullet @ u (takeWhile (\<lambda>c. c \<noteq> newline) hit) @ u [newline])
                         [two_line_snippet])
             @ py_join (u [newline])
                 (map (\<lambda>row. bullet @ u (py_str no_scalar (row Species_name)) @ u '' observed at ''
                              @ u (py_str no_scalar (row Location)) @ u '' (''
                              @ u (py_str no_scalar (row Date_observed)) @ u '')'')
                    [seen sighting]))"
    using ai_answer_synthesis [of no_scalar "[two_line_snippet]" "[seen sighting]"]
    by (elim conjE)
  then have "ai_answer no_scalar [two_line_snippet] [seen sighting] =
     St_success
       (u found_header
        @ bullet @ u ''Great Tit is common in Margalla Hills'' @ u [newline]
        @ bullet @ u ''Parus major observed at Rawal Lake (2025-05-17)'')"
    by (simp add: two_line_snippet_def newline_def seen_cell sighting_def na_values_def u_def)
  moreover have "ai_answer no_scalar [] ([] :: unit frame) = St_write (u not_found_text)"
    using ai_answer_synthesis [of no_scalar "[]" "[]"] by (elim conjE)
  ultimately show ?thesis by simp
qed

end
